theory Spec2Isabelle
  imports Complex_Main
begin

section \<open>JavaScript values used by the client\<close>

text \<open>
  The client is the React application of \<^verbatim>\<open>App.tsx\<close>: a \<^verbatim>\<open>Dashboard\<close> component
  (connection status, event history, audio playback, toast, uptime) and a
  \<^verbatim>\<open>VideoOverlay\<close> component (one video element, toast).  Both are embedded as state
  records with one function per callback of the source.  The repository holds two copies of
  the file; the embedding follows the later one, which has the toast.  In the earlier copy
  \<^verbatim>\<open>addEvent\<close>, \<^verbatim>\<open>formatUptime\<close>, the connection effect and the handlers of the video
  element read the same, there is no toast, and \<^verbatim>\<open>playVideo\<close> creates a video element
  when the ref is empty instead of returning.

  Numbers that hold milliseconds are integers.  \<^verbatim>\<open>Date.now()\<close> is an input of the program:
  the \<open>n\<close>-th reading taken since the page was loaded is \<open>clk n\<close>, and the state counts the
  readings taken so far.
\<close>

type_synonym clock = "nat \<Rightarrow> int"

text \<open>\<^verbatim>\<open>Number.prototype.toString()\<close> on an integer, and \<^verbatim>\<open>String.prototype.padStart\<close>.\<close>

definition digit_char :: "nat \<Rightarrow> char" where
  "digit_char d = ''0123456789'' ! d"

fun toString_nat :: "nat \<Rightarrow> string" where
  "toString_nat n =
     (if n < 10 then [digit_char n] else toString_nat (n div 10) @ [digit_char (n mod 10)])"

declare toString_nat.simps [simp del]

definition toString :: "int \<Rightarrow> string" where
  "toString k = (if k < 0 then CHR ''-'' # toString_nat (nat (- k)) else toString_nat (nat k))"

definition padStart :: "nat \<Rightarrow> char \<Rightarrow> string \<Rightarrow> string" where
  "padStart n c s = replicate (n - length s) c @ s"

text \<open>
  The remainder operator \<^verbatim>\<open>%\<close> of JavaScript truncates towards zero (the result has the
  sign of the dividend); \<^verbatim>\<open>Math.floor(a / b)\<close> is the floor of the quotient.
\<close>

definition js_rem :: "int \<Rightarrow> int \<Rightarrow> int" where
  "js_rem a b = sgn a * (\<bar>a\<bar> mod \<bar>b\<bar>)"

definition floor_div :: "int \<Rightarrow> int \<Rightarrow> int" where
  "floor_div a b = a div b"

subsection \<open>Event payloads\<close>

text \<open>
  \<^verbatim>\<open>JSON.parse(e.data) as { src: string; filename: string; username?: string;
  rewardName?: string }\<close>.  The cast is erased at run time, so every member may be absent
  (\<open>None\<close> is \<^verbatim>\<open>undefined\<close>).  The text of an event is taken as already classified:
  not JSON at all, the JSON value \<^verbatim>\<open>null\<close>, or a JSON value read through these four
  members (members that are present are strings).
\<close>

record payload =
  src :: "string option"
  filename :: "string option"
  username :: "string option"
  rewardName :: "string option"

datatype message_data = NotJson | JsonNull | JsonValue payload

datatype js_error = SyntaxError | TypeError

text \<open>
  \<^verbatim>\<open>JSON.parse\<close> throws a SyntaxError on text that is not JSON; reading a member of
  \<^verbatim>\<open>null\<close> throws a TypeError.  Both happen before any other statement of the
  \<^verbatim>\<open>try\<close> block has an effect.
\<close>

fun parse_payload :: "message_data \<Rightarrow> js_error + payload" where
  "parse_payload NotJson = Inl SyntaxError"
| "parse_payload JsonNull = Inl TypeError"
| "parse_payload (JsonValue p) = Inr p"

text \<open>A value inside a template literal, and the truthiness test of \<^verbatim>\<open>&&\<close>.\<close>

fun template :: "string option \<Rightarrow> string" where
  "template None = ''undefined''"
| "template (Some s) = s"

fun truthy :: "string option \<Rightarrow> bool" where
  "truthy None = False"
| "truthy (Some s) = (s \<noteq> [])"

section \<open>The dashboard\<close>

datatype conn_status = Disconnected | Connecting | Connected

record event_record =
  ev_id :: string
  ev_type :: string
  ev_timestamp :: int
  ev_data :: "payload option"
  ev_description :: string

record toast_message =
  toast_username :: string
  toast_rewardName :: string

text \<open>What the component does to the world outside React: the audio element and the
  \<^verbatim>\<open>EventSource\<close>.  Each call is appended to a log, oldest first.\<close>

datatype audio_op = NewAudio | SetVolume rat | SetSrc string | Play

datatype es_op = EsNew string | EsClose

datatype lifecycle = Fresh | Mounted | Gone

record dashboard =
  status :: conn_status
  events :: "event_record list"
  volume :: rat
  muted :: bool
  connectedAt :: "int option"
  eventCount :: nat
  soundsPlayed :: nat
  toast :: "toast_message option"
  uptime :: string
  audioRef :: bool
  audio_log :: "audio_op list"
  pending_plays :: "string option list"
  es_log :: "es_op list"
  timers :: "nat list"
  reads :: nat
  lifecycle :: lifecycle

text \<open>The state of the first render: the \<^verbatim>\<open>useState\<close> initial values.\<close>

definition dashboard_init :: dashboard where
  "dashboard_init =
     \<lparr>status = Disconnected, events = [], volume = 7 / 10, muted = False,
      connectedAt = None, eventCount = 0, soundsPlayed = 0, toast = None,
      uptime = ''00:00:00'', audioRef = False, audio_log = [], pending_plays = [],
      es_log = [], timers = [], reads = 0, lifecycle = Fresh\<rparr>"

text \<open>
  \<^verbatim>\<open>addEvent\<close>: the id is \<^verbatim>\<open>Date.now().toString()\<close>, the timestamp a second reading
  of the clock (\<^verbatim>\<open>new Date()\<close>); the record goes to the front of
  \<^verbatim>\<open>prev.slice(0, 99)\<close> and the counter is incremented.
\<close>

definition addEvent ::
  "clock \<Rightarrow> string \<Rightarrow> string \<Rightarrow> payload option \<Rightarrow> dashboard \<Rightarrow> dashboard" where
  "addEvent clk ty description data s =
     (let event = \<lparr>ev_id = toString (clk (reads s)), ev_type = ty,
                    ev_timestamp = clk (Suc (reads s)), ev_data = data,
                    ev_description = description\<rparr>
      in s\<lparr>events := event # take 99 (events s),
            eventCount := eventCount s + 1,
            reads := reads s + 2\<rparr>)"

definition clearHistory :: "dashboard \<Rightarrow> dashboard" where
  "clearHistory s = s\<lparr>events := [], eventCount := 0, soundsPlayed := 0\<rparr>"

text \<open>A sequence of \<^verbatim>\<open>addEvent\<close> calls, each with its type, description and payload.\<close>

fun record_all ::
  "clock \<Rightarrow> (string \<times> string \<times> payload option) list \<Rightarrow> dashboard \<Rightarrow> dashboard" where
  "record_all clk [] s = s"
| "record_all clk ((ty, description, data) # calls) s =
     record_all clk calls (addEvent clk ty description data s)"

subsection \<open>Uptime\<close>

definition formatUptime :: "int option \<Rightarrow> int \<Rightarrow> string" where
  "formatUptime connected_at now =
     (case connected_at of
        None \<Rightarrow> ''00:00:00''
      | Some c \<Rightarrow>
          (let diff = now - c;
               hours = floor_div diff (1000 * 60 * 60);
               minutes = floor_div (js_rem diff (1000 * 60 * 60)) (1000 * 60);
               seconds = floor_div (js_rem diff (1000 * 60)) 1000
           in padStart 2 CHR ''0'' (toString hours) @ '':'' @
              padStart 2 CHR ''0'' (toString minutes) @ '':'' @
              padStart 2 CHR ''0'' (toString seconds)))"

text \<open>The interval callback \<^verbatim>\<open>setUptime(formatUptime())\<close>; the clock is read only when a
  connected timestamp is set.\<close>

definition tick :: "clock \<Rightarrow> dashboard \<Rightarrow> dashboard" where
  "tick clk s =
     s\<lparr>uptime := formatUptime (connectedAt s) (clk (reads s)),
       reads := (if connectedAt s = None then reads s else Suc (reads s))\<rparr>"

subsection \<open>The connection effect\<close>

text \<open>
  The body of the connection effect: \<^verbatim>\<open>setStatus("connecting")\<close>, one system record, and
  a new \<^verbatim>\<open>EventSource\<close> on \<^verbatim>\<open>${apiBase}/events\<close>.  \<open>api\<close> is the module constant
  \<^verbatim>\<open>apiBase\<close>, which the build environment fixes.
\<close>

definition connect_effect :: "clock \<Rightarrow> string \<Rightarrow> dashboard \<Rightarrow> dashboard" where
  "connect_effect clk api s =
     (let s1 = s\<lparr>status := Connecting\<rparr>;
          s2 = addEvent clk ''system'' ''Connecting to server...'' None s1
      in s2\<lparr>es_log := es_log s2 @ [EsNew (api @ ''/events'')]\<rparr>)"

text \<open>The cleanup of the effect: \<^verbatim>\<open>es.close()\<close> and one system record.  It does not
  touch the status.\<close>

definition cleanup :: "clock \<Rightarrow> dashboard \<Rightarrow> dashboard" where
  "cleanup clk s =
     addEvent clk ''system'' ''Disconnected from server'' None
       (s\<lparr>es_log := es_log s @ [EsClose]\<rparr>)"

text \<open>The effect depends on \<^verbatim>\<open>[volume, muted]\<close>: when either changes, React runs the
  cleanup of the previous run and then the body again.\<close>

definition rerun_effect :: "clock \<Rightarrow> string \<Rightarrow> dashboard \<Rightarrow> dashboard" where
  "rerun_effect clk api s = connect_effect clk api (cleanup clk s)"

definition onopen :: "clock \<Rightarrow> dashboard \<Rightarrow> dashboard" where
  "onopen clk s =
     (let s1 = s\<lparr>status := Connected\<rparr>;
          s2 = s1\<lparr>connectedAt := Some (clk (reads s1)), reads := Suc (reads s1)\<rparr>
      in addEvent clk ''connection'' ''Connected to server'' None s2)"

definition on_connected :: "clock \<Rightarrow> dashboard \<Rightarrow> dashboard" where
  "on_connected clk s =
     (let s1 = s\<lparr>status := Connected\<rparr>;
          s2 = s1\<lparr>connectedAt := Some (clk (reads s1)), reads := Suc (reads s1)\<rparr>
      in addEvent clk ''connection'' ''Server connection established'' None s2)"

definition onerror :: "clock \<Rightarrow> dashboard \<Rightarrow> dashboard" where
  "onerror clk s =
     addEvent clk ''error'' ''Connection lost, attempting to reconnect...'' None
       (s\<lparr>status := Connecting\<rparr>)"

subsection \<open>The play-sound listener\<close>

text \<open>
  The unmuted branch: reuse the audio element of the ref or create one, set its volume
  and source and call \<^verbatim>\<open>play()\<close>.  The promise of \<^verbatim>\<open>play()\<close> stays pending; its
  rejection handler has captured the file name.
\<close>

definition play_audio :: "string \<Rightarrow> payload \<Rightarrow> dashboard \<Rightarrow> dashboard" where
  "play_audio api p s =
     (let s1 = (if audioRef s then s
                else s\<lparr>audioRef := True, audio_log := audio_log s @ [NewAudio]\<rparr>)
      in s1\<lparr>audio_log :=
              audio_log s1 @ [SetVolume (volume s1), SetSrc (api @ template (src p)), Play],
            pending_plays := pending_plays s1 @ [filename p]\<rparr>)"

text \<open>\<^verbatim>\<open>setToast({...}); setTimeout(() => setToast(null), 5000)\<close>: a timer is the number of
  milliseconds left until its callback runs.\<close>

definition show_toast :: "string option \<Rightarrow> string option \<Rightarrow> dashboard \<Rightarrow> dashboard" where
  "show_toast u r s =
     (case (u, r) of
        (Some un, Some rn) \<Rightarrow>
          (if truthy u \<and> truthy r
           then s\<lparr>toast := Some \<lparr>toast_username = un, toast_rewardName = rn\<rparr>,
                  timers := timers s @ [5000]\<rparr>
           else s)
      | _ \<Rightarrow> s)"

text \<open>The \<^verbatim>\<open>try\<close> block of the listener: \<open>Inl\<close> is the exception it throws.\<close>

definition play_sound_try ::
  "clock \<Rightarrow> string \<Rightarrow> message_data \<Rightarrow> dashboard \<Rightarrow> js_error + dashboard" where
  "play_sound_try clk api d s =
     (case parse_payload d of
        Inl e \<Rightarrow> Inl e
      | Inr p \<Rightarrow>
          (let s1 = addEvent clk ''sound'' (''Playing: '' @ template (filename p)) (Some p) s;
               s2 = s1\<lparr>soundsPlayed := soundsPlayed s1 + 1\<rparr>;
               s3 = (if \<not> muted s2 then play_audio api p s2 else s2)
           in Inr (show_toast (username p) (rewardName p) s3)))"

text \<open>The listener: the \<^verbatim>\<open>catch\<close> clause turns any exception into one error record.\<close>

definition play_sound_listener ::
  "clock \<Rightarrow> string \<Rightarrow> message_data \<Rightarrow> dashboard \<Rightarrow> dashboard" where
  "play_sound_listener clk api d s =
     (case play_sound_try clk api d s of
        Inl e \<Rightarrow> addEvent clk ''error'' ''Failed to parse sound event'' None s
      | Inr s' \<Rightarrow> s')"

text \<open>The rejection handler of the \<open>k\<close>-th pending \<^verbatim>\<open>play()\<close> promise, and its
  fulfilment (no handler).\<close>

definition play_rejected :: "clock \<Rightarrow> nat \<Rightarrow> dashboard \<Rightarrow> dashboard" where
  "play_rejected clk k s =
     (if k < length (pending_plays s)
      then addEvent clk ''error'' (''Failed to play: '' @ template (pending_plays s ! k)) None
             (s\<lparr>pending_plays := take k (pending_plays s) @ drop (Suc k) (pending_plays s)\<rparr>)
      else s)"

definition play_fulfilled :: "nat \<Rightarrow> dashboard \<Rightarrow> dashboard" where
  "play_fulfilled k s =
     s\<lparr>pending_plays := take k (pending_plays s) @ drop (Suc k) (pending_plays s)\<rparr>"

subsection \<open>Controls and timers\<close>

text \<open>The slider (\<^verbatim>\<open>disabled={muted}\<close>) and the mute button.  A state setter called with
  the current value does not render again, so the effect is not run.\<close>

definition setVolume :: "clock \<Rightarrow> string \<Rightarrow> rat \<Rightarrow> dashboard \<Rightarrow> dashboard" where
  "setVolume clk api v s =
     (if muted s \<or> v = volume s then s else rerun_effect clk api (s\<lparr>volume := v\<rparr>))"

definition toggleMuted :: "clock \<Rightarrow> string \<Rightarrow> dashboard \<Rightarrow> dashboard" where
  "toggleMuted clk api s = rerun_effect clk api (s\<lparr>muted := \<not> muted s\<rparr>)"

text \<open>\<open>d\<close> milliseconds pass: every timer that is due runs \<^verbatim>\<open>setToast(null)\<close>, the
  others have \<open>d\<close> milliseconds less to wait.\<close>

definition elapse :: "nat \<Rightarrow> dashboard \<Rightarrow> dashboard" where
  "elapse d s =
     s\<lparr>toast := (if list_ex (\<lambda>t. t \<le> d) (timers s) then None else toast s),
       timers := map (\<lambda>t. t - d) (filter (\<lambda>t. d < t) (timers s))\<rparr>"

subsection \<open>The dashboard as a transition system\<close>

datatype input =
    Mount
  | Unmount
  | Open
  | ConnectedEvent
  | PlaySound message_data
  | TransportError
  | VolumeChange rat
  | MuteClick
  | ClearClick
  | Tick
  | Elapse nat
  | PlayRejected nat
  | PlayFulfilled nat

text \<open>Callbacks exist only while the component is mounted: before the first run of the
  effect nothing but mounting can happen, and after unmounting React drops every update.
  Mounting attaches the rendered \<^verbatim>\<open><audio ref={audioRef} />\<close> to the ref before the
  effect runs.\<close>

fun step :: "clock \<Rightarrow> string \<Rightarrow> dashboard \<Rightarrow> input \<Rightarrow> dashboard" where
  "step clk api s i =
     (case lifecycle s of
        Fresh \<Rightarrow>
          (case i of
             Mount \<Rightarrow> connect_effect clk api (s\<lparr>audioRef := True, lifecycle := Mounted\<rparr>)
           | _ \<Rightarrow> s)
      | Gone \<Rightarrow> s
      | Mounted \<Rightarrow>
          (case i of
             Mount \<Rightarrow> s
           | Unmount \<Rightarrow> (cleanup clk s)\<lparr>audioRef := False, lifecycle := Gone\<rparr>
           | Open \<Rightarrow> onopen clk s
           | ConnectedEvent \<Rightarrow> on_connected clk s
           | PlaySound d \<Rightarrow> play_sound_listener clk api d s
           | TransportError \<Rightarrow> onerror clk s
           | VolumeChange v \<Rightarrow> setVolume clk api v s
           | MuteClick \<Rightarrow> toggleMuted clk api s
           | ClearClick \<Rightarrow> clearHistory s
           | Tick \<Rightarrow> tick clk s
           | Elapse d \<Rightarrow> elapse d s
           | PlayRejected k \<Rightarrow> play_rejected clk k s
           | PlayFulfilled k \<Rightarrow> play_fulfilled k s))"

declare step.simps [simp del]

fun run :: "clock \<Rightarrow> string \<Rightarrow> dashboard \<Rightarrow> input list \<Rightarrow> dashboard" where
  "run clk api s [] = s"
| "run clk api s (i # is) = run clk api (step clk api s i) is"

section \<open>The video overlay\<close>

datatype video_op =
  VPause | VRemoveSrc | VLoad | VSetSrc string | VSetMuted bool | VSetVolume rat | VPlay

record overlay =
  visible :: bool
  overlay_toast :: "toast_message option"
  videoRef :: bool
  video_log :: "video_op list"
  overlay_es_log :: "es_op list"
  overlay_timers :: "nat list"
  overlay_lifecycle :: lifecycle

definition overlay_init :: overlay where
  "overlay_init =
     \<lparr>visible = False, overlay_toast = None, videoRef = False, video_log = [],
      overlay_es_log = [], overlay_timers = [], overlay_lifecycle = Fresh\<rparr>"

text \<open>One call on the video element of the ref.\<close>

definition el :: "video_op \<Rightarrow> overlay \<Rightarrow> overlay" where
  "el op s = s\<lparr>video_log := video_log s @ [op]\<rparr>"

definition overlay_show_toast :: "string option \<Rightarrow> string option \<Rightarrow> overlay \<Rightarrow> overlay" where
  "overlay_show_toast u r s =
     (case (u, r) of
        (Some un, Some rn) \<Rightarrow>
          (if truthy u \<and> truthy r
           then s\<lparr>overlay_toast := Some \<lparr>toast_username = un, toast_rewardName = rn\<rparr>,
                  overlay_timers := overlay_timers s @ [5000]\<rparr>
           else s)
      | _ \<Rightarrow> s)"

text \<open>
  \<^verbatim>\<open>playVideo\<close>: nothing without an element; otherwise pause (an exception of
  \<^verbatim>\<open>pause()\<close> is swallowed, the call is made either way), remove the source, load, set the
  new source, mute, full volume, show, play.  The constants \<^verbatim>\<open>muted = true\<close> and
  \<^verbatim>\<open>volume = 1\<close> are those of the component.
\<close>

definition playVideo ::
  "string \<Rightarrow> string option \<Rightarrow> string option \<Rightarrow> string option \<Rightarrow> overlay \<Rightarrow> overlay" where
  "playVideo api source u r s =
     (if \<not> videoRef s then s
      else
        (let s1 = el VPause s;
             s2 = el VRemoveSrc s1;
             s3 = el VLoad s2;
             s4 = el (VSetSrc (api @ template source)) s3;
             s5 = el (VSetMuted True) s4;
             s6 = el (VSetVolume 1) s5;
             s7 = s6\<lparr>visible := True\<rparr>;
             s8 = el VPlay s7
         in overlay_show_toast u r s8))"

text \<open>The play-video listener: the \<^verbatim>\<open>catch\<close> clause is empty.\<close>

definition play_video_listener :: "string \<Rightarrow> message_data \<Rightarrow> overlay \<Rightarrow> overlay" where
  "play_video_listener api d s =
     (case parse_payload d of
        Inl e \<Rightarrow> s
      | Inr p \<Rightarrow> playVideo api (src p) (username p) (rewardName p) s)"

text \<open>\<^verbatim>\<open>onEnded\<close> and \<^verbatim>\<open>onError\<close> of the video element have the same body.\<close>

definition onEnded :: "overlay \<Rightarrow> overlay" where
  "onEnded s =
     (let s1 = (if videoRef s then el VLoad (el VRemoveSrc (el VPause s)) else s)
      in s1\<lparr>visible := False\<rparr>)"

definition onError :: "overlay \<Rightarrow> overlay" where
  "onError s =
     (let s1 = (if videoRef s then el VLoad (el VRemoveSrc (el VPause s)) else s)
      in s1\<lparr>visible := False\<rparr>)"

text \<open>The rejection handler of \<^verbatim>\<open>el.play()\<close> is \<^verbatim>\<open>() => undefined\<close>.\<close>

definition video_play_rejected :: "overlay \<Rightarrow> overlay" where
  "video_play_rejected s = s"

definition overlay_elapse :: "nat \<Rightarrow> overlay \<Rightarrow> overlay" where
  "overlay_elapse d s =
     s\<lparr>overlay_toast :=
         (if list_ex (\<lambda>t. t \<le> d) (overlay_timers s) then None else overlay_toast s),
       overlay_timers := map (\<lambda>t. t - d) (filter (\<lambda>t. d < t) (overlay_timers s))\<rparr>"

datatype overlay_input =
    OMount
  | OUnmount
  | OOpen
  | OConnectedEvent
  | OPlayVideo message_data
  | OTransportError
  | OEnded
  | OError
  | OElapse nat
  | OPlayRejected

text \<open>Mounting attaches the video element to the ref and opens the \<^verbatim>\<open>EventSource\<close>;
  \<^verbatim>\<open>onopen\<close>, the connected listener and \<^verbatim>\<open>onerror\<close> do nothing.\<close>

fun overlay_step :: "string \<Rightarrow> overlay \<Rightarrow> overlay_input \<Rightarrow> overlay" where
  "overlay_step api s i =
     (case overlay_lifecycle s of
        Fresh \<Rightarrow>
          (case i of
             OMount \<Rightarrow> s\<lparr>videoRef := True,
                          overlay_es_log := overlay_es_log s @ [EsNew (api @ ''/events'')],
                          overlay_lifecycle := Mounted\<rparr>
           | _ \<Rightarrow> s)
      | Gone \<Rightarrow> s
      | Mounted \<Rightarrow>
          (case i of
             OMount \<Rightarrow> s
           | OUnmount \<Rightarrow> s\<lparr>videoRef := False,
                            overlay_es_log := overlay_es_log s @ [EsClose],
                            overlay_lifecycle := Gone\<rparr>
           | OOpen \<Rightarrow> s
           | OConnectedEvent \<Rightarrow> s
           | OPlayVideo d \<Rightarrow> play_video_listener api d s
           | OTransportError \<Rightarrow> s
           | OEnded \<Rightarrow> onEnded s
           | OError \<Rightarrow> onError s
           | OElapse d \<Rightarrow> overlay_elapse d s
           | OPlayRejected \<Rightarrow> video_play_rejected s))"

declare overlay_step.simps [simp del]

fun overlay_run :: "string \<Rightarrow> overlay \<Rightarrow> overlay_input list \<Rightarrow> overlay" where
  "overlay_run api s [] = s"
| "overlay_run api s (i # is) = overlay_run api (overlay_step api s i) is"

text \<open>The calls made on the video element during one step: the part of the log that the
  step added.\<close>

definition step_ops :: "string \<Rightarrow> overlay \<Rightarrow> overlay_input \<Rightarrow> video_op list" where
  "step_ops api s i = drop (length (video_log s)) (video_log (overlay_step api s i))"

section \<open>Reference definitions\<close>

text \<open>
  The uptime as the specification words it: the whole seconds elapsed, split into hours,
  minutes and seconds, each written with at least two digits and joined by colons.
\<close>

definition two_digits :: "nat \<Rightarrow> string" where
  "two_digits n = (if n < 10 then CHR ''0'' # toString_nat n else toString_nat n)"

definition elapsed_clock :: "nat \<Rightarrow> string" where
  "elapsed_clock ms =
     (let secs = ms div 1000
      in two_digits (secs div 3600) @ '':'' @ two_digits (secs div 60 mod 60) @ '':'' @
         two_digits (secs mod 60))"

text \<open>
  The status transitions the specification lists: Disconnected to Connecting, Connecting to
  Connected, Connected to Connecting, and Connecting to Connecting.
\<close>

definition allowed_transition :: "conn_status \<Rightarrow> conn_status \<Rightarrow> bool" where
  "allowed_transition a b =
     ((a = Disconnected \<and> b = Connecting) \<or> (a = Connecting \<and> b = Connected) \<or>
      (a = Connected \<and> b = Connecting) \<or> (a = Connecting \<and> b = Connecting))"

text \<open>The status is Disconnected exactly as long as the component has not been mounted.\<close>

definition status_inv :: "dashboard \<Rightarrow> bool" where
  "status_inv s = ((lifecycle s = Fresh) = (status s = Disconnected))"

text \<open>While the overlay is mounted, the video element is attached to the ref.\<close>

definition overlay_inv :: "overlay \<Rightarrow> bool" where
  "overlay_inv s = (overlay_lifecycle s \<noteq> Mounted \<or> videoRef s)"

section \<open>Properties of the event history\<close>

lemmas dashboard_defs =
  step.simps connect_effect_def cleanup_def rerun_effect_def onopen_def on_connected_def
  onerror_def play_audio_def show_toast_def play_sound_try_def play_sound_listener_def
  play_rejected_def play_fulfilled_def setVolume_def toggleMuted_def elapse_def tick_def
  clearHistory_def addEvent_def dashboard_init_def Let_def

lemmas overlay_defs =
  overlay_step.simps overlay_init_def play_video_listener_def playVideo_def el_def
  overlay_show_toast_def onEnded_def onError_def video_play_rejected_def overlay_elapse_def
  step_ops_def

lemma addEvent_events_length:
  "length (events (addEvent clk ty d p s)) = Suc (min 99 (length (events s)))"
  by (simp add: addEvent_def Let_def)

lemma addEvent_eventCount: "eventCount (addEvent clk ty d p s) = Suc (eventCount s)"
  by (simp add: addEvent_def Let_def)

lemma record_all_eventCount:
  "eventCount (record_all clk calls s) = eventCount s + length calls"
  by (induction clk calls s rule: record_all.induct) (simp_all add: addEvent_eventCount)

lemma record_all_length:
  "length (events s) \<le> 100 \<Longrightarrow>
   length (events (record_all clk calls s)) = min (length (events s) + length calls) 100"
proof (induction clk calls s rule: record_all.induct)
  case (1 clk s)
  then show ?case by simp
next
  case (2 clk ty description data calls s)
  have "length (events (addEvent clk ty description data s)) \<le> 100"
    by (simp add: addEvent_events_length)
  from 2(1)[OF this] show ?case using 2(2)
    by (simp add: addEvent_events_length)
qed

lemma record_all_after_clear:
  "length (events (record_all clk calls (clearHistory s))) = min (length calls) 100"
  "eventCount (record_all clk calls (clearHistory s)) = length calls"
proof -
  have "length (events (clearHistory s)) \<le> 100"
    by (simp add: clearHistory_def)
  from record_all_length[OF this, of clk calls]
  show "length (events (record_all clk calls (clearHistory s))) = min (length calls) 100"
    by (simp add: clearHistory_def)
  show "eventCount (record_all clk calls (clearHistory s)) = length calls"
    by (simp add: record_all_eventCount clearHistory_def)
qed

text \<open>
  Claim C1.  After any sequence of \<open>N\<close> calls of \<^verbatim>\<open>addEvent\<close> on the freshly rendered
  dashboard, the history holds \<open>min N 100\<close> records and the event counter is \<open>N\<close>.
  \<^verbatim>\<open>clearHistory\<close>, in whatever state it is called, leaves an empty history, an event
  counter of 0 and a sounds-played counter of 0; the clear button of the mounted dashboard
  changes nothing else; and after a clear the history and the counter follow the calls of
  \<^verbatim>\<open>addEvent\<close> as from the start.
\<close>

theorem history_bounded_count_exact:
  "length (events (record_all clk calls dashboard_init)) = min (length calls) 100
   \<and> eventCount (record_all clk calls dashboard_init) = length calls
   \<and> events (clearHistory s) = []
   \<and> eventCount (clearHistory s) = 0
   \<and> soundsPlayed (clearHistory s) = 0
   \<and> step clk api (s\<lparr>lifecycle := Mounted\<rparr>) ClearClick =
       s\<lparr>lifecycle := Mounted, events := [], eventCount := 0, soundsPlayed := 0\<rparr>
   \<and> length (events (record_all clk calls (clearHistory s))) = min (length calls) 100
   \<and> eventCount (record_all clk calls (clearHistory s)) = length calls"
proof -
  have "length (events dashboard_init) \<le> 100"
    by (simp add: dashboard_init_def)
  from record_all_length[OF this, of clk calls]
  have "length (events (record_all clk calls dashboard_init)) = min (length calls) 100"
    by (simp add: dashboard_init_def)
  moreover have "eventCount (record_all clk calls dashboard_init) = length calls"
    by (simp add: record_all_eventCount dashboard_init_def)
  moreover have "step clk api (s\<lparr>lifecycle := Mounted\<rparr>) ClearClick =
       s\<lparr>lifecycle := Mounted, events := [], eventCount := 0, soundsPlayed := 0\<rparr>"
    by (simp add: step.simps clearHistory_def)
  ultimately show ?thesis
    using record_all_after_clear[of clk calls s] by (simp add: clearHistory_def)
qed

text \<open>The clear on a state whose counters are not zero: one sound cue has been handled.\<close>

theorem history_bounded_count_exact_witness:
  "soundsPlayed (run (\<lambda>n. 1000) ''http://h'' dashboard_init
       [Mount, PlaySound (JsonValue \<lparr>src = Some ''/a.mp3'', filename = Some ''a.mp3'',
                                      username = None, rewardName = None\<rparr>)]) = 1
   \<and> eventCount (run (\<lambda>n. 1000) ''http://h'' dashboard_init
       [Mount, PlaySound (JsonValue \<lparr>src = Some ''/a.mp3'', filename = Some ''a.mp3'',
                                      username = None, rewardName = None\<rparr>)]) = 2
   \<and> soundsPlayed (clearHistory (run (\<lambda>n. 1000) ''http://h'' dashboard_init
       [Mount, PlaySound (JsonValue \<lparr>src = Some ''/a.mp3'', filename = Some ''a.mp3'',
                                      username = None, rewardName = None\<rparr>)])) = 0
   \<and> eventCount (clearHistory (run (\<lambda>n. 1000) ''http://h'' dashboard_init
       [Mount, PlaySound (JsonValue \<lparr>src = Some ''/a.mp3'', filename = Some ''a.mp3'',
                                      username = None, rewardName = None\<rparr>)])) = 0
   \<and> events (clearHistory (run (\<lambda>n. 1000) ''http://h'' dashboard_init
       [Mount, PlaySound (JsonValue \<lparr>src = Some ''/a.mp3'', filename = Some ''a.mp3'',
                                      username = None, rewardName = None\<rparr>)])) = []
   \<and> soundsPlayed (run (\<lambda>n. 1000) ''http://h'' dashboard_init
       [Mount, PlaySound (JsonValue \<lparr>src = Some ''/a.mp3'', filename = Some ''a.mp3'',
                                      username = None, rewardName = None\<rparr>), ClearClick]) = 0"
  using history_bounded_count_exact[where clk = "\<lambda>n. 1000" and api = "''http://h''"
      and calls = "[]"
      and s = "run (\<lambda>n. 1000) ''http://h'' dashboard_init
       [Mount, PlaySound (JsonValue \<lparr>src = Some ''/a.mp3'', filename = Some ''a.mp3'',
                                      username = None, rewardName = None\<rparr>)]"]
  by (simp add: dashboard_defs)

section \<open>Properties of the uptime clock\<close>

lemma toString_nat_nonempty: "toString_nat n \<noteq> []"
  by (simp add: toString_nat.simps[of n])

lemma toString_nat_length:
  "length (toString_nat n) = Suc 0 \<longleftrightarrow> n < 10"
proof (cases "n < 10")
  case True
  then show ?thesis by (simp add: toString_nat.simps[of n])
next
  case False
  have "toString_nat (n div 10) \<noteq> []" by (rule toString_nat_nonempty)
  with False show ?thesis by (simp add: toString_nat.simps[of n])
qed

lemma mod_div_shift: "0 < a \<Longrightarrow> (m mod (a * b)) div a = (m div a) mod (b::nat)"
  by (simp add: mod_mult2_eq)

lemma padStart_two_digits: "padStart 2 CHR ''0'' (toString (int n)) = two_digits n"
proof (cases "n < 10")
  case True
  then have "length (toString_nat n) = Suc 0" by (simp add: toString_nat_length)
  with True show ?thesis
    by (simp add: padStart_def toString_def two_digits_def)
next
  case False
  then have "length (toString_nat n) \<noteq> Suc 0" by (simp add: toString_nat_length)
  moreover have "length (toString_nat n) \<noteq> 0" by (simp add: toString_nat_nonempty)
  ultimately have "2 - length (toString_nat n) = 0" by arith
  with False show ?thesis
    by (simp add: padStart_def toString_def two_digits_def)
qed

lemma js_rem_nonneg: "0 \<le> a \<Longrightarrow> 0 < b \<Longrightarrow> js_rem a b = a mod b"
  by (cases "a = 0") (simp_all add: js_rem_def)

lemma hours_of: "floor_div (int m) (1000 * 60 * 60) = int (m div 1000 div 3600)"
  unfolding floor_div_def by (simp add: zdiv_int div_mult2_eq)

lemma minutes_of:
  "floor_div (js_rem (int m) (1000 * 60 * 60)) (1000 * 60) = int (m div 1000 div 60 mod 60)"
proof -
  have "(m mod (60000 * 60)) div 60000 = m div 60000 mod 60"
    by (rule mod_div_shift) simp
  moreover have "m div (1000 * 60) = m div 1000 div 60"
    by (rule div_mult2_eq)
  ultimately have "(m mod 3600000) div 60000 = m div 1000 div 60 mod 60"
    by simp
  then have "int ((m mod 3600000) div 60000) = int (m div 1000 div 60 mod 60)" by simp
  then show ?thesis
    unfolding floor_div_def by (simp add: js_rem_nonneg zdiv_int zmod_int)
qed

lemma seconds_of:
  "floor_div (js_rem (int m) (1000 * 60)) 1000 = int (m div 1000 mod 60)"
proof -
  have "(m mod (1000 * 60)) div 1000 = m div 1000 mod 60"
    by (rule mod_div_shift) simp
  then have "(m mod 60000) div 1000 = m div 1000 mod 60"
    by simp
  then have "int ((m mod 60000) div 1000) = int (m div 1000 mod 60)" by simp
  then show ?thesis
    unfolding floor_div_def by (simp add: js_rem_nonneg zdiv_int zmod_int)
qed

lemma formatUptime_elapsed:
  assumes "c \<le> now"
  shows "formatUptime (Some c) now = elapsed_clock (nat (now - c))"
proof -
  obtain m where m: "now - c = int m"
    using assms by (metis diff_ge_0_iff_ge nonneg_int_cases)
  show ?thesis
    unfolding formatUptime_def elapsed_clock_def Let_def
    by (simp only: m option.case hours_of minutes_of seconds_of padStart_two_digits nat_int)
qed

lemma toString_minus_one: "toString (- 1) = ''-1''"
  by (simp add: toString_def toString_nat.simps[of "Suc 0"] digit_char_def)

lemma components_minus_one:
  "floor_div (- 1) 3600000 = - 1"
  "floor_div (js_rem (- 1) 3600000) 60000 = - 1"
  "floor_div (js_rem (- 1) 60000) 1000 = - 1"
  by (simp_all add: floor_div_def js_rem_def)

text \<open>
  Claim C9 as stated fails when the wall clock has been set back.  The dashboard is mounted
  and the connection opens at clock reading 1000, which becomes the connected timestamp; the
  next reading, taken by the tick, is 999, one millisecond earlier, and the tick shows
  \<^verbatim>\<open>-1:-1:-1\<close>.
\<close>

theorem uptime_clock_set_back_counterexample:
  "connectedAt (run (\<lambda>n. if n = 5 then 999 else 1000) ''http://h'' dashboard_init
       [Mount, Open]) = Some 1000
   \<and> uptime (run (\<lambda>n. if n = 5 then 999 else 1000) ''http://h'' dashboard_init
       [Mount, Open, Tick]) = ''-1:-1:-1''"
  by (simp add: dashboard_defs formatUptime_def components_minus_one toString_minus_one
      padStart_def)

text \<open>
  Claim C9, amended.  On a tick the uptime is \<^verbatim>\<open>00:00:00\<close> when no connected timestamp is set.
  Otherwise, when the clock reading is not before the connected timestamp, it is the elapsed
  time between the two, as hours, minutes and seconds with at least two digits each, joined
  by colons.  The new value depends on the timestamp and the clock reading only, not on the
  uptime shown before.
\<close>

theorem uptime_on_tick:
  "(connectedAt s = None \<longrightarrow> uptime (tick clk s) = ''00:00:00'')
   \<and> (\<forall>c. connectedAt s = Some c \<and> c \<le> clk (reads s) \<longrightarrow>
          uptime (tick clk s) = elapsed_clock (nat (clk (reads s) - c)))"
  by (auto simp: tick_def formatUptime_elapsed) (simp add: formatUptime_def)

theorem uptime_on_tick_witness:
  "uptime (tick (\<lambda>n. 3725999) (dashboard_init\<lparr>connectedAt := Some 1000\<rparr>)) = ''01:02:04''
   \<and> uptime (tick (\<lambda>n. 5) (dashboard_init\<lparr>uptime := ''00:00:07''\<rparr>)) = ''00:00:00''"
  using uptime_on_tick[of "dashboard_init\<lparr>connectedAt := Some 1000\<rparr>" "\<lambda>n. 3725999"]
    uptime_on_tick[of "dashboard_init\<lparr>uptime := ''00:00:07''\<rparr>" "\<lambda>n. 5"]
  by (simp add: dashboard_init_def elapsed_clock_def two_digits_def toString_nat.simps
      digit_char_def)

section \<open>Properties of the dashboard\<close>

lemma addEvent_frame:
  "status (addEvent clk ty d p s) = status s"
  "volume (addEvent clk ty d p s) = volume s"
  "muted (addEvent clk ty d p s) = muted s"
  "connectedAt (addEvent clk ty d p s) = connectedAt s"
  "soundsPlayed (addEvent clk ty d p s) = soundsPlayed s"
  "toast (addEvent clk ty d p s) = toast s"
  "uptime (addEvent clk ty d p s) = uptime s"
  "audioRef (addEvent clk ty d p s) = audioRef s"
  "audio_log (addEvent clk ty d p s) = audio_log s"
  "pending_plays (addEvent clk ty d p s) = pending_plays s"
  "es_log (addEvent clk ty d p s) = es_log s"
  "timers (addEvent clk ty d p s) = timers s"
  "lifecycle (addEvent clk ty d p s) = lifecycle s"
  by (simp_all add: addEvent_def Let_def)

lemma addEvent_events:
  "events (addEvent clk ty d p s) =
     \<lparr>ev_id = toString (clk (reads s)), ev_type = ty, ev_timestamp = clk (Suc (reads s)),
      ev_data = p, ev_description = d\<rparr> # take 99 (events s)"
  by (simp add: addEvent_def Let_def)

lemma addEvent_reads: "reads (addEvent clk ty d p s) = reads s + 2"
  by (simp add: addEvent_def Let_def)

lemma show_toast_frame:
  "status (show_toast u r s) = status s"
  "lifecycle (show_toast u r s) = lifecycle s"
  "events (show_toast u r s) = events s"
  "eventCount (show_toast u r s) = eventCount s"
  "audio_log (show_toast u r s) = audio_log s"
  "pending_plays (show_toast u r s) = pending_plays s"
  "soundsPlayed (show_toast u r s) = soundsPlayed s"
  by (simp_all add: show_toast_def split: option.splits)

lemma play_audio_frame:
  "status (play_audio api p s) = status s"
  "lifecycle (play_audio api p s) = lifecycle s"
  "events (play_audio api p s) = events s"
  "eventCount (play_audio api p s) = eventCount s"
  "soundsPlayed (play_audio api p s) = soundsPlayed s"
  by (simp_all add: play_audio_def Let_def)

lemma play_sound_listener_status:
  "status (play_sound_listener clk api d s) = status s"
  "lifecycle (play_sound_listener clk api d s) = lifecycle s"
  by (simp_all add: play_sound_listener_def play_sound_try_def Let_def addEvent_frame
      show_toast_frame play_audio_frame split: sum.splits)

lemma rerun_effect_status:
  "status (rerun_effect clk api s) = Connecting"
  "lifecycle (rerun_effect clk api s) = lifecycle s"
  by (simp_all add: rerun_effect_def connect_effect_def cleanup_def Let_def addEvent_frame)

subsection \<open>Connection status\<close>

lemma step_status_inv: "status_inv s \<Longrightarrow> status_inv (step clk api s i)"
  unfolding status_inv_def
  by (cases "lifecycle s"; cases i)
    (simp_all add: step.simps connect_effect_def cleanup_def onopen_def on_connected_def
      onerror_def setVolume_def toggleMuted_def clearHistory_def tick_def elapse_def
      play_rejected_def play_fulfilled_def Let_def addEvent_frame play_sound_listener_status
      rerun_effect_status)

lemma run_status_inv: "status_inv s \<Longrightarrow> status_inv (run clk api s ins)"
  by (induction ins arbitrary: s) (simp_all add: step_status_inv)

lemma reachable_status_inv: "status_inv (run clk api dashboard_init ins)"
  by (rule run_status_inv) (simp add: status_inv_def dashboard_init_def)

lemma step_status_change:
  assumes "status_inv s"
  shows "status (step clk api s i) = status s
         \<or> allowed_transition (status s) (status (step clk api s i))"
  using assms unfolding status_inv_def allowed_transition_def
  by (cases "lifecycle s"; cases i; cases "status s")
    (simp_all add: step.simps connect_effect_def cleanup_def onopen_def on_connected_def
      onerror_def setVolume_def toggleMuted_def clearHistory_def tick_def elapse_def
      play_rejected_def play_fulfilled_def Let_def addEvent_frame play_sound_listener_status
      rerun_effect_status)

lemma step_never_enters_Disconnected:
  assumes "status_inv s" and "status (step clk api s i) = Disconnected"
  shows "status s = Disconnected"
  using step_status_change[OF assms(1), of clk api i] assms(2)
  by (auto simp: allowed_transition_def)

lemma step_Unmount_status: "status (step clk api s Unmount) = status s"
  by (cases "lifecycle s") (simp_all add: step.simps cleanup_def addEvent_frame)

lemma step_TransportError:
  assumes "lifecycle s = Mounted"
  shows "status (step clk api s TransportError) = Connecting"
    and "events (step clk api s TransportError) =
           \<lparr>ev_id = toString (clk (reads s)), ev_type = ''error'',
            ev_timestamp = clk (Suc (reads s)), ev_data = None,
            ev_description = ''Connection lost, attempting to reconnect...''\<rparr>
           # take 99 (events s)"
    and "eventCount (step clk api s TransportError) = Suc (eventCount s)"
  using assms
  by (simp_all add: step.simps onerror_def addEvent_frame addEvent_events addEvent_eventCount)

text \<open>
  Claim C3.  In every state the dashboard reaches from its first render, a step either
  leaves the connection status as it is or changes it by one of the listed transitions.
  No step enters Disconnected (the cleanup that closes the \<^verbatim>\<open>EventSource\<close> leaves the
  status alone as well), and a transport error on the mounted dashboard sets the status to
  Connecting and records exactly one error record.
\<close>

theorem status_transitions:
  "(let s = run clk api dashboard_init ins; s' = step clk api s i in
      (status s' = status s \<or> allowed_transition (status s) (status s'))
      \<and> (status s' = Disconnected \<longrightarrow> status s = Disconnected)
      \<and> (i = Unmount \<longrightarrow> status s' = status s)
      \<and> (lifecycle s = Mounted \<and> i = TransportError \<longrightarrow>
            status s' = Connecting
            \<and> events s' =
                 \<lparr>ev_id = toString (clk (reads s)), ev_type = ''error'',
                  ev_timestamp = clk (Suc (reads s)), ev_data = None,
                  ev_description = ''Connection lost, attempting to reconnect...''\<rparr>
                 # take 99 (events s)
            \<and> eventCount s' = Suc (eventCount s)))"
proof -
  define s where "s = run clk api dashboard_init ins"
  have inv: "status_inv s"
    unfolding s_def by (rule reachable_status_inv)
  have "status (step clk api s i) = status s
        \<or> allowed_transition (status s) (status (step clk api s i))"
    by (rule step_status_change[OF inv])
  moreover have "status (step clk api s i) = Disconnected \<longrightarrow> status s = Disconnected"
    using step_never_enters_Disconnected[OF inv] by blast
  moreover have "i = Unmount \<longrightarrow> status (step clk api s i) = status s"
    by (simp add: step_Unmount_status)
  moreover have "lifecycle s = Mounted \<and> i = TransportError \<longrightarrow>
            status (step clk api s i) = Connecting
            \<and> events (step clk api s i) =
                 \<lparr>ev_id = toString (clk (reads s)), ev_type = ''error'',
                  ev_timestamp = clk (Suc (reads s)), ev_data = None,
                  ev_description = ''Connection lost, attempting to reconnect...''\<rparr>
                 # take 99 (events s)
            \<and> eventCount (step clk api s i) = Suc (eventCount s)"
    using step_TransportError[of s clk api] by blast
  ultimately show ?thesis
    unfolding Let_def s_def by blast
qed

theorem status_transitions_witness:
  "status (run (\<lambda>n. 1000) ''http://h'' dashboard_init [Mount, Open]) = Connected
   \<and> lifecycle (run (\<lambda>n. 1000) ''http://h'' dashboard_init [Mount, Open]) = Mounted
   \<and> status (step (\<lambda>n. 1000) ''http://h''
          (run (\<lambda>n. 1000) ''http://h'' dashboard_init [Mount, Open]) TransportError) = Connecting
   \<and> map ev_type (events (step (\<lambda>n. 1000) ''http://h''
          (run (\<lambda>n. 1000) ''http://h'' dashboard_init [Mount, Open]) TransportError))
       = [''error'', ''connection'', ''system'']
   \<and> allowed_transition Connected Connecting"
  using status_transitions[of "\<lambda>n. 1000" "''http://h''" "[Mount, Open]" TransportError]
  by (simp add: dashboard_defs allowed_transition_def)

subsection \<open>Muted cues\<close>

lemma play_sound_listener_muted_audio:
  "muted s \<Longrightarrow> audio_log (play_sound_listener clk api d s) = audio_log s"
  "muted s \<Longrightarrow> pending_plays (play_sound_listener clk api d s) = pending_plays s"
  by (simp_all add: play_sound_listener_def play_sound_try_def Let_def addEvent_frame
      show_toast_frame split: sum.splits)

lemma play_sound_listener_recorded:
  assumes "parse_payload d = Inr p"
  shows "events (play_sound_listener clk api d s) =
           \<lparr>ev_id = toString (clk (reads s)), ev_type = ''sound'',
            ev_timestamp = clk (Suc (reads s)), ev_data = Some p,
            ev_description = ''Playing: '' @ template (filename p)\<rparr> # take 99 (events s)"
    and "eventCount (play_sound_listener clk api d s) = Suc (eventCount s)"
    and "soundsPlayed (play_sound_listener clk api d s) = Suc (soundsPlayed s)"
  using assms
  by (simp_all add: play_sound_listener_def play_sound_try_def Let_def addEvent_frame
      addEvent_events addEvent_eventCount show_toast_frame play_audio_frame)

text \<open>
  Claim C4.  While the mute flag is set, a play-sound event on the mounted dashboard issues
  no call on the audio element and starts no \<^verbatim>\<open>play()\<close>, whatever the volume and whatever
  the event carries; and when its payload parses, the cue is recorded all the same: one
  sound record goes to the front of the history, and the event counter and the
  sounds-played counter grow by one.
\<close>

theorem muted_cue_recorded_not_played:
  assumes "lifecycle s = Mounted" and "muted s"
  shows "audio_log (step clk api s (PlaySound d)) = audio_log s
         \<and> pending_plays (step clk api s (PlaySound d)) = pending_plays s
         \<and> (\<forall>p. parse_payload d = Inr p \<longrightarrow>
               events (step clk api s (PlaySound d)) =
                 \<lparr>ev_id = toString (clk (reads s)), ev_type = ''sound'',
                  ev_timestamp = clk (Suc (reads s)), ev_data = Some p,
                  ev_description = ''Playing: '' @ template (filename p)\<rparr>
                 # take 99 (events s)
               \<and> eventCount (step clk api s (PlaySound d)) = Suc (eventCount s)
               \<and> soundsPlayed (step clk api s (PlaySound d)) = Suc (soundsPlayed s))"
proof -
  have st: "step clk api s (PlaySound d) = play_sound_listener clk api d s"
    using assms(1) by (simp add: step.simps)
  show ?thesis
    unfolding st
    using play_sound_listener_muted_audio[OF assms(2), of clk api d]
      play_sound_listener_recorded[of d _ clk api s]
    by blast
qed

theorem muted_cue_recorded_not_played_witness:
  "lifecycle (run (\<lambda>n. 1000) ''http://h'' dashboard_init [Mount, Open, MuteClick]) = Mounted
   \<and> muted (run (\<lambda>n. 1000) ''http://h'' dashboard_init [Mount, Open, MuteClick])
   \<and> audio_log (step (\<lambda>n. 1000) ''http://h''
        (run (\<lambda>n. 1000) ''http://h'' dashboard_init [Mount, Open, MuteClick])
        (PlaySound (JsonValue \<lparr>src = Some ''/a.mp3'', filename = Some ''a.mp3'',
                                username = None, rewardName = None\<rparr>))) = []
   \<and> map ev_type (events (step (\<lambda>n. 1000) ''http://h''
        (run (\<lambda>n. 1000) ''http://h'' dashboard_init [Mount, Open, MuteClick])
        (PlaySound (JsonValue \<lparr>src = Some ''/a.mp3'', filename = Some ''a.mp3'',
                                username = None, rewardName = None\<rparr>))))
       = [''sound'', ''system'', ''system'', ''connection'', ''system'']
   \<and> soundsPlayed (step (\<lambda>n. 1000) ''http://h''
        (run (\<lambda>n. 1000) ''http://h'' dashboard_init [Mount, Open, MuteClick])
        (PlaySound (JsonValue \<lparr>src = Some ''/a.mp3'', filename = Some ''a.mp3'',
                                username = None, rewardName = None\<rparr>))) = 1"
  using muted_cue_recorded_not_played[where
      s = "run (\<lambda>n. 1000) ''http://h'' dashboard_init [Mount, Open, MuteClick]"
      and clk = "\<lambda>n. 1000" and api = "''http://h''"
      and d = "JsonValue \<lparr>src = Some ''/a.mp3'', filename = Some ''a.mp3'',
                   username = None, rewardName = None\<rparr>"]
  by (simp add: dashboard_defs)

subsection \<open>Changing the volume or the mute flag\<close>

lemma rerun_effect_result:
  "es_log (rerun_effect clk api s) = es_log s @ [EsClose, EsNew (api @ ''/events'')]"
  "events (rerun_effect clk api s) =
     \<lparr>ev_id = toString (clk (reads s + 2)), ev_type = ''system'',
      ev_timestamp = clk (reads s + 3), ev_data = None,
      ev_description = ''Connecting to server...''\<rparr>
     # \<lparr>ev_id = toString (clk (reads s)), ev_type = ''system'',
        ev_timestamp = clk (Suc (reads s)), ev_data = None,
        ev_description = ''Disconnected from server''\<rparr>
     # take 98 (events s)"
  "eventCount (rerun_effect clk api s) = eventCount s + 2"
  by (simp_all add: rerun_effect_def connect_effect_def cleanup_def Let_def addEvent_frame
      addEvent_events addEvent_eventCount addEvent_reads numeral_3_eq_3 numeral_2_eq_2)

text \<open>
  Claim C10.  Every change of the mute flag or of the volume on the mounted dashboard tears
  the connection down and sets it up again: the \<^verbatim>\<open>EventSource\<close> is closed and a new one is
  opened on the same address, the status is Connecting afterwards, and the history gains the
  system record \<^verbatim>\<open>Disconnected from server\<close> followed by the system record
  \<^verbatim>\<open>Connecting to server...\<close>.  (The slider is disabled while muted, and a setter called
  with the current value changes nothing.)
\<close>

theorem policy_change_reconnects:
  assumes "lifecycle s = Mounted"
    and "i = MuteClick \<or> (i = VolumeChange v \<and> v \<noteq> volume s \<and> \<not> muted s)"
  shows "es_log (step clk api s i) = es_log s @ [EsClose, EsNew (api @ ''/events'')]
         \<and> status (step clk api s i) = Connecting
         \<and> events (step clk api s i) =
              \<lparr>ev_id = toString (clk (reads s + 2)), ev_type = ''system'',
               ev_timestamp = clk (reads s + 3), ev_data = None,
               ev_description = ''Connecting to server...''\<rparr>
              # \<lparr>ev_id = toString (clk (reads s)), ev_type = ''system'',
                 ev_timestamp = clk (Suc (reads s)), ev_data = None,
                 ev_description = ''Disconnected from server''\<rparr>
              # take 98 (events s)
         \<and> eventCount (step clk api s i) = eventCount s + 2
         \<and> (i = MuteClick \<longrightarrow> muted (step clk api s i) = (\<not> muted s))
         \<and> (i = VolumeChange v \<longrightarrow> volume (step clk api s i) = v)"
proof -
  from assms(2) show ?thesis
  proof
    assume i: "i = MuteClick"
    have st: "step clk api s i = rerun_effect clk api (s\<lparr>muted := \<not> muted s\<rparr>)"
      using assms(1) i by (simp add: step.simps toggleMuted_def)
    show ?thesis
      unfolding st using i
      by (simp add: rerun_effect_result rerun_effect_status)
        (simp add: rerun_effect_def connect_effect_def cleanup_def Let_def addEvent_frame)
  next
    assume i: "i = VolumeChange v \<and> v \<noteq> volume s \<and> \<not> muted s"
    have st: "step clk api s i = rerun_effect clk api (s\<lparr>volume := v\<rparr>)"
      using assms(1) i by (simp add: step.simps setVolume_def)
    show ?thesis
      unfolding st using i
      by (simp add: rerun_effect_result rerun_effect_status)
        (simp add: rerun_effect_def connect_effect_def cleanup_def Let_def addEvent_frame)
  qed
qed

theorem policy_change_reconnects_witness:
  "lifecycle (run (\<lambda>n. 1000) ''http://h'' dashboard_init [Mount, Open]) = Mounted
   \<and> es_log (step (\<lambda>n. 1000) ''http://h''
        (run (\<lambda>n. 1000) ''http://h'' dashboard_init [Mount, Open]) (VolumeChange (1 / 2)))
       = [EsNew ''http://h/events'', EsClose, EsNew ''http://h/events'']
   \<and> status (step (\<lambda>n. 1000) ''http://h''
        (run (\<lambda>n. 1000) ''http://h'' dashboard_init [Mount, Open]) (VolumeChange (1 / 2)))
       = Connecting
   \<and> map ev_description (events (step (\<lambda>n. 1000) ''http://h''
        (run (\<lambda>n. 1000) ''http://h'' dashboard_init [Mount, Open]) (VolumeChange (1 / 2))))
       = [''Connecting to server...'', ''Disconnected from server'', ''Connected to server'',
          ''Connecting to server...'']"
  using policy_change_reconnects[where
      s = "run (\<lambda>n. 1000) ''http://h'' dashboard_init [Mount, Open]"
      and i = "VolumeChange (1 / 2)" and v = "1 / 2" and clk = "\<lambda>n. 1000"
      and api = "''http://h''"]
  by (simp add: dashboard_defs)

subsection \<open>Payloads that do not parse\<close>




subsection \<open>Playback failures\<close>

text \<open>
  Claim C6 as stated fails for video: when the \<^verbatim>\<open>play()\<close> promise of the video element is
  rejected, the overlay is left exactly as it was.  Nothing records the failure.
\<close>

theorem video_failure_counterexample:
  "video_log (overlay_run ''http://h'' overlay_init
      [OMount, OPlayVideo (JsonValue \<lparr>src = Some ''/v.mp4'', filename = None,
                                       username = None, rewardName = None\<rparr>)])
     = [VPause, VRemoveSrc, VLoad, VSetSrc ''http://h/v.mp4'', VSetMuted True, VSetVolume 1,
        VPlay]
   \<and> overlay_run ''http://h'' overlay_init
      [OMount, OPlayVideo (JsonValue \<lparr>src = Some ''/v.mp4'', filename = None,
                                       username = None, rewardName = None\<rparr>), OPlayRejected]
     = overlay_run ''http://h'' overlay_init
      [OMount, OPlayVideo (JsonValue \<lparr>src = Some ''/v.mp4'', filename = None,
                                       username = None, rewardName = None\<rparr>)]"
  by (simp add: overlay_step.simps overlay_init_def play_video_listener_def playVideo_def
      el_def overlay_show_toast_def video_play_rejected_def Let_def)

lemma play_sound_listener_audio_log:
  "audio_log s' = audio_log s \<Longrightarrow> audioRef s' = audioRef s \<Longrightarrow> muted s' = muted s \<Longrightarrow>
   volume s' = volume s \<Longrightarrow>
   audio_log (play_sound_listener clk api d s') = audio_log (play_sound_listener clk api d s)"
  by (simp add: play_sound_listener_def play_sound_try_def Let_def addEvent_frame
      show_toast_frame play_audio_def split: sum.splits)

text \<open>
  Claim C6, amended.  When a pending \<^verbatim>\<open>play()\<close> promise of the audio element is rejected on
  the mounted dashboard, the handler does nothing but record one error record
  \<^verbatim>\<open>Failed to play: <filename>\<close>: status, audio element, sounds-played counter and toast
  are unchanged, the dashboard stays mounted, and a following play-sound event makes the same
  calls on the audio element as it would have made without the failure.  A rejected
  \<^verbatim>\<open>play()\<close> of the video element changes nothing in the overlay and is not recorded.
\<close>

theorem playback_failure_handling:
  assumes "lifecycle s = Mounted" and "k < length (pending_plays s)"
  shows "step clk api s (PlayRejected k) =
           addEvent clk ''error'' (''Failed to play: '' @ template (pending_plays s ! k)) None
             (s\<lparr>pending_plays := take k (pending_plays s) @ drop (Suc k) (pending_plays s)\<rparr>)
         \<and> events (step clk api s (PlayRejected k)) =
              \<lparr>ev_id = toString (clk (reads s)), ev_type = ''error'',
               ev_timestamp = clk (Suc (reads s)), ev_data = None,
               ev_description = ''Failed to play: '' @ template (pending_plays s ! k)\<rparr>
              # take 99 (events s)
         \<and> eventCount (step clk api s (PlayRejected k)) = Suc (eventCount s)
         \<and> status (step clk api s (PlayRejected k)) = status s
         \<and> audio_log (step clk api s (PlayRejected k)) = audio_log s
         \<and> soundsPlayed (step clk api s (PlayRejected k)) = soundsPlayed s
         \<and> toast (step clk api s (PlayRejected k)) = toast s
         \<and> lifecycle (step clk api s (PlayRejected k)) = Mounted
         \<and> audio_log (step clk api (step clk api s (PlayRejected k)) (PlaySound d)) =
             audio_log (step clk api s (PlaySound d))
         \<and> overlay_step api v OPlayRejected = v"
proof -
  let ?s' = "step clk api s (PlayRejected k)"
  have st: "?s' =
           addEvent clk ''error'' (''Failed to play: '' @ template (pending_plays s ! k)) None
             (s\<lparr>pending_plays := take k (pending_plays s) @ drop (Suc k) (pending_plays s)\<rparr>)"
    using assms by (simp add: step.simps play_rejected_def)
  have frame: "audio_log ?s' = audio_log s" "audioRef ?s' = audioRef s" "muted ?s' = muted s"
    "volume ?s' = volume s" "lifecycle ?s' = Mounted" "status ?s' = status s"
    "soundsPlayed ?s' = soundsPlayed s" "toast ?s' = toast s"
    unfolding st using assms(1) by (simp_all add: addEvent_frame)
  have ev: "events ?s' =
              \<lparr>ev_id = toString (clk (reads s)), ev_type = ''error'',
               ev_timestamp = clk (Suc (reads s)), ev_data = None,
               ev_description = ''Failed to play: '' @ template (pending_plays s ! k)\<rparr>
              # take 99 (events s)"
    "eventCount ?s' = Suc (eventCount s)"
    unfolding st by (simp_all add: addEvent_events addEvent_eventCount)
  have next_cue: "audio_log (step clk api ?s' (PlaySound d)) =
             audio_log (step clk api s (PlaySound d))"
  proof -
    have "step clk api ?s' (PlaySound d) = play_sound_listener clk api d ?s'"
      using frame(5) by (simp add: step.simps[where i = "PlaySound d"])
    moreover have "step clk api s (PlaySound d) = play_sound_listener clk api d s"
      using assms(1) by (simp add: step.simps[where i = "PlaySound d"])
    ultimately show ?thesis
      using play_sound_listener_audio_log[OF frame(1,2,3,4)] by simp
  qed
  have ov: "overlay_step api v OPlayRejected = v"
    by (cases "overlay_lifecycle v") (simp_all add: overlay_step.simps video_play_rejected_def)
  show ?thesis
    using st frame ev next_cue ov by blast
qed

theorem playback_failure_handling_witness:
  "lifecycle (run (\<lambda>n. 1000) ''http://h'' dashboard_init
       [Mount, PlaySound (JsonValue \<lparr>src = Some ''/a.mp3'', filename = Some ''a.mp3'',
                                      username = None, rewardName = None\<rparr>)]) = Mounted
   \<and> pending_plays (run (\<lambda>n. 1000) ''http://h'' dashboard_init
       [Mount, PlaySound (JsonValue \<lparr>src = Some ''/a.mp3'', filename = Some ''a.mp3'',
                                      username = None, rewardName = None\<rparr>)]) = [Some ''a.mp3'']
   \<and> map ev_description (events (step (\<lambda>n. 1000) ''http://h''
        (run (\<lambda>n. 1000) ''http://h'' dashboard_init
          [Mount, PlaySound (JsonValue \<lparr>src = Some ''/a.mp3'', filename = Some ''a.mp3'',
                                         username = None, rewardName = None\<rparr>)])
        (PlayRejected 0)))
       = [''Failed to play: a.mp3'', ''Playing: a.mp3'', ''Connecting to server...'']
   \<and> audio_log (step (\<lambda>n. 1000) ''http://h''
        (run (\<lambda>n. 1000) ''http://h'' dashboard_init
          [Mount, PlaySound (JsonValue \<lparr>src = Some ''/a.mp3'', filename = Some ''a.mp3'',
                                         username = None, rewardName = None\<rparr>)])
        (PlayRejected 0))
       = [SetVolume (7 / 10), SetSrc ''http://h/a.mp3'', Play]"
  using playback_failure_handling[where
      s = "run (\<lambda>n. 1000) ''http://h'' dashboard_init
          [Mount, PlaySound (JsonValue \<lparr>src = Some ''/a.mp3'', filename = Some ''a.mp3'',
                                         username = None, rewardName = None\<rparr>)]"
      and k = 0 and clk = "\<lambda>n. 1000" and api = "''http://h''"]
  by (simp add: dashboard_defs)

subsection \<open>Toast\<close>

text \<open>
  Claim C7 on the code.  A qualifying cue sets the toast at once and schedules its clearance
  5000 ms later, and the timer is never cancelled.  On a dashboard with no clearance
  pending the toast is still shown after 3000 ms, a tick and another 1999 ms, and is gone
  after 3000 ms, a tick and another 2000 ms.  But when a second qualifying cue follows the
  first after 3000 ms, the timer of the first cue has 2000 ms left: the toast of the second
  cue is shown for 1999 ms and is gone 2000 ms after its cue, not 5000 ms.  The overlay
  behaves the same.
\<close>

theorem toast_cleared_by_earlier_timer:
  "toast (run (\<lambda>n. 1000) ''http://h'' dashboard_init
      [Mount,
       PlaySound (JsonValue \<lparr>src = Some ''/a.mp3'', filename = Some ''a.mp3'',
                              username = Some ''alice'', rewardName = Some ''confetti''\<rparr>)])
     = Some \<lparr>toast_username = ''alice'', toast_rewardName = ''confetti''\<rparr>
   \<and> timers (run (\<lambda>n. 1000) ''http://h'' dashboard_init
      [Mount,
       PlaySound (JsonValue \<lparr>src = Some ''/a.mp3'', filename = Some ''a.mp3'',
                              username = Some ''alice'', rewardName = Some ''confetti''\<rparr>)])
     = [5000]
   \<and> toast (run (\<lambda>n. 1000) ''http://h'' dashboard_init
      [Mount,
       PlaySound (JsonValue \<lparr>src = Some ''/a.mp3'', filename = Some ''a.mp3'',
                              username = Some ''alice'', rewardName = Some ''confetti''\<rparr>),
       Elapse 3000, Tick, Elapse 1999])
     = Some \<lparr>toast_username = ''alice'', toast_rewardName = ''confetti''\<rparr>
   \<and> toast (run (\<lambda>n. 1000) ''http://h'' dashboard_init
      [Mount,
       PlaySound (JsonValue \<lparr>src = Some ''/a.mp3'', filename = Some ''a.mp3'',
                              username = Some ''alice'', rewardName = Some ''confetti''\<rparr>),
       Elapse 3000, Tick, Elapse 2000])
     = None
   \<and> toast (run (\<lambda>n. 1000) ''http://h'' dashboard_init
      [Mount,
       PlaySound (JsonValue \<lparr>src = Some ''/a.mp3'', filename = Some ''a.mp3'',
                              username = Some ''alice'', rewardName = Some ''confetti''\<rparr>),
       Elapse 3000,
       PlaySound (JsonValue \<lparr>src = Some ''/b.mp3'', filename = Some ''b.mp3'',
                              username = Some ''bob'', rewardName = Some ''hype''\<rparr>)])
     = Some \<lparr>toast_username = ''bob'', toast_rewardName = ''hype''\<rparr>
   \<and> timers (run (\<lambda>n. 1000) ''http://h'' dashboard_init
      [Mount,
       PlaySound (JsonValue \<lparr>src = Some ''/a.mp3'', filename = Some ''a.mp3'',
                              username = Some ''alice'', rewardName = Some ''confetti''\<rparr>),
       Elapse 3000,
       PlaySound (JsonValue \<lparr>src = Some ''/b.mp3'', filename = Some ''b.mp3'',
                              username = Some ''bob'', rewardName = Some ''hype''\<rparr>)])
     = [2000, 5000]
   \<and> toast (run (\<lambda>n. 1000) ''http://h'' dashboard_init
      [Mount,
       PlaySound (JsonValue \<lparr>src = Some ''/a.mp3'', filename = Some ''a.mp3'',
                              username = Some ''alice'', rewardName = Some ''confetti''\<rparr>),
       Elapse 3000,
       PlaySound (JsonValue \<lparr>src = Some ''/b.mp3'', filename = Some ''b.mp3'',
                              username = Some ''bob'', rewardName = Some ''hype''\<rparr>),
       Elapse 1999])
     = Some \<lparr>toast_username = ''bob'', toast_rewardName = ''hype''\<rparr>
   \<and> toast (run (\<lambda>n. 1000) ''http://h'' dashboard_init
      [Mount,
       PlaySound (JsonValue \<lparr>src = Some ''/a.mp3'', filename = Some ''a.mp3'',
                              username = Some ''alice'', rewardName = Some ''confetti''\<rparr>),
       Elapse 3000,
       PlaySound (JsonValue \<lparr>src = Some ''/b.mp3'', filename = Some ''b.mp3'',
                              username = Some ''bob'', rewardName = Some ''hype''\<rparr>),
       Elapse 2000])
     = None
   \<and> overlay_toast (overlay_run ''http://h'' overlay_init
      [OMount,
       OPlayVideo (JsonValue \<lparr>src = Some ''/a.mp4'', filename = None,
                               username = Some ''alice'', rewardName = Some ''confetti''\<rparr>),
       OElapse 3000,
       OPlayVideo (JsonValue \<lparr>src = Some ''/b.mp4'', filename = None,
                               username = Some ''bob'', rewardName = Some ''hype''\<rparr>),
       OElapse 2000])
     = None"
  by (simp add: dashboard_defs overlay_defs formatUptime_def)

subsection \<open>Record ids\<close>

text \<open>
  Claim C8 on the code: the id of a record is the clock reading in milliseconds, so two
  records created within the same millisecond share their id.  A click on the mute button
  creates two records back to back (the cleanup of the effect and its next run); with both
  clock readings at 5000 the two records have the id \<^verbatim>\<open>5000\<close>.
\<close>

theorem ids_repeat_on_mute_click:
  "map ev_id (events (run (\<lambda>n. if n < 2 then 1000 else 5000) ''http://h'' dashboard_init
       [Mount, MuteClick]))
     = [''5000'', ''5000'', ''1000'']
   \<and> map ev_description (events (run (\<lambda>n. if n < 2 then 1000 else 5000) ''http://h''
       dashboard_init [Mount, MuteClick]))
     = [''Connecting to server...'', ''Disconnected from server'', ''Connecting to server...'']"
  by (simp add: dashboard_defs toString_def toString_nat.simps digit_char_def)

section \<open>Properties of the video overlay\<close>

lemma playVideo_videoRef: "videoRef (playVideo api source u r s) = videoRef s"
  by (simp add: playVideo_def Let_def el_def overlay_show_toast_def split: option.splits)

lemma playVideo_lifecycle: "overlay_lifecycle (playVideo api source u r s) = overlay_lifecycle s"
  by (simp add: playVideo_def Let_def el_def overlay_show_toast_def split: option.splits)

lemma playVideo_log:
  "video_log (playVideo api source u r s) =
     (if videoRef s
      then video_log s @ [VPause, VRemoveSrc, VLoad, VSetSrc (api @ template source),
                          VSetMuted True, VSetVolume 1, VPlay]
      else video_log s)"
  by (simp add: playVideo_def Let_def el_def overlay_show_toast_def split: option.splits)

lemma overlay_step_inv: "overlay_inv s \<Longrightarrow> overlay_inv (overlay_step api s i)"
  unfolding overlay_inv_def
  by (cases "overlay_lifecycle s"; cases i)
    (simp_all add: overlay_step.simps play_video_listener_def playVideo_videoRef
      playVideo_lifecycle onEnded_def onError_def el_def overlay_elapse_def
      video_play_rejected_def Let_def split: sum.splits)

lemma overlay_run_inv: "overlay_inv s \<Longrightarrow> overlay_inv (overlay_run api s ins)"
  by (induction ins arbitrary: s) (simp_all add: overlay_step_inv)

lemma overlay_reachable_inv: "overlay_inv (overlay_run api overlay_init ins)"
  by (rule overlay_run_inv) (simp add: overlay_inv_def overlay_init_def)

lemma step_ops_cases:
  "step_ops api s i = []
   \<or> step_ops api s i = [VPause, VRemoveSrc, VLoad]
   \<or> (\<exists>url. step_ops api s i =
         [VPause, VRemoveSrc, VLoad, VSetSrc url, VSetMuted True, VSetVolume 1, VPlay])"
  unfolding step_ops_def
  by (cases "overlay_lifecycle s"; cases i)
    (simp_all add: overlay_step.simps play_video_listener_def playVideo_log
      onEnded_def onError_def el_def overlay_elapse_def
      video_play_rejected_def Let_def split: sum.splits)

lemma video_log_step:
  "video_log (overlay_step api s i) = video_log s @ step_ops api s i"
  unfolding step_ops_def
  by (cases "overlay_lifecycle s"; cases i)
    (simp_all add: overlay_step.simps play_video_listener_def playVideo_log
      onEnded_def onError_def el_def overlay_elapse_def
      video_play_rejected_def Let_def split: sum.splits)

lemma step_ops_play_preceded:
  assumes "k < length (step_ops api s i)" and "step_ops api s i ! k = VPlay"
  shows "k = 6 \<and> take 3 (step_ops api s i) = [VPause, VRemoveSrc, VLoad]"
proof -
  consider "step_ops api s i = []" | "step_ops api s i = [VPause, VRemoveSrc, VLoad]"
    | url where "step_ops api s i =
         [VPause, VRemoveSrc, VLoad, VSetSrc url, VSetMuted True, VSetVolume 1, VPlay]"
    using step_ops_cases[of api s i] by blast
  then show ?thesis
  proof cases
    case 1
    with assms show ?thesis by simp
  next
    case 2
    with assms show ?thesis by (auto simp: nth_Cons' split: if_splits)
  next
    case 3
    with assms show ?thesis by (auto simp: nth_Cons' split: if_splits)
  qed
qed

lemma step_ops_cue:
  assumes "overlay_lifecycle s = Mounted" and "videoRef s" and "parse_payload d = Inr p"
  shows "step_ops api s (OPlayVideo d) =
           [VPause, VRemoveSrc, VLoad, VSetSrc (api @ template (src p)), VSetMuted True,
            VSetVolume 1, VPlay]"
  using assms
  by (simp add: step_ops_def overlay_step.simps play_video_listener_def playVideo_log)

lemma step_ops_ended:
  assumes "overlay_lifecycle s = Mounted" and "videoRef s" and "i = OEnded \<or> i = OError"
  shows "step_ops api s i = [VPause, VRemoveSrc, VLoad]"
    and "\<not> visible (overlay_step api s i)"
  using assms
  by (auto simp: step_ops_def overlay_step.simps onEnded_def onError_def el_def)

text \<open>
  Claim C2.  In every state the overlay reaches from its first render, the calls a step
  makes on the video element are appended to the log, and a \<^verbatim>\<open>play()\<close> among them is
  preceded in the same step by \<^verbatim>\<open>pause()\<close>, the removal of the source and \<^verbatim>\<open>load()\<close>,
  in this order.  A play-video cue on the mounted overlay does make these calls, the first
  cue included, and the end of playback or a playback error makes the three reset calls
  and hides the surface.
\<close>

theorem video_reset_before_play:
  "(let s = overlay_run api overlay_init ins; ops = step_ops api s i in
      video_log (overlay_step api s i) = video_log s @ ops
      \<and> (\<forall>k. k < length ops \<and> ops ! k = VPlay \<longrightarrow>
             k = 6 \<and> take 3 ops = [VPause, VRemoveSrc, VLoad])
      \<and> (\<forall>p. overlay_lifecycle s = Mounted \<and> i = OPlayVideo (JsonValue p) \<longrightarrow>
             ops = [VPause, VRemoveSrc, VLoad, VSetSrc (api @ template (src p)),
                    VSetMuted True, VSetVolume 1, VPlay])
      \<and> (overlay_lifecycle s = Mounted \<and> (i = OEnded \<or> i = OError) \<longrightarrow>
             ops = [VPause, VRemoveSrc, VLoad] \<and> \<not> visible (overlay_step api s i)))"
proof -
  define s where "s = overlay_run api overlay_init ins"
  have inv: "overlay_lifecycle s = Mounted \<longrightarrow> videoRef s"
    using overlay_reachable_inv[of api ins] unfolding s_def overlay_inv_def by blast
  have a: "video_log (overlay_step api s i) = video_log s @ step_ops api s i"
    by (rule video_log_step)
  have b: "\<forall>k. k < length (step_ops api s i) \<and> step_ops api s i ! k = VPlay \<longrightarrow>
             k = 6 \<and> take 3 (step_ops api s i) = [VPause, VRemoveSrc, VLoad]"
    using step_ops_play_preceded[of _ api s i] by blast
  have c: "\<forall>p. overlay_lifecycle s = Mounted \<and> i = OPlayVideo (JsonValue p) \<longrightarrow>
             step_ops api s i =
               [VPause, VRemoveSrc, VLoad, VSetSrc (api @ template (src p)),
                VSetMuted True, VSetVolume 1, VPlay]"
    using inv step_ops_cue[of s "JsonValue _" _ api] by simp
  have d: "overlay_lifecycle s = Mounted \<and> (i = OEnded \<or> i = OError) \<longrightarrow>
             step_ops api s i = [VPause, VRemoveSrc, VLoad] \<and> \<not> visible (overlay_step api s i)"
    using inv step_ops_ended[of s i api] by blast
  show ?thesis
    unfolding Let_def s_def[symmetric] using a b c d by blast
qed

theorem video_reset_before_play_witness:
  "step_ops ''http://h'' (overlay_run ''http://h'' overlay_init [OMount])
       (OPlayVideo (JsonValue \<lparr>src = Some ''/v.mp4'', filename = None,
                                username = None, rewardName = None\<rparr>))
     = [VPause, VRemoveSrc, VLoad, VSetSrc ''http://h/v.mp4'', VSetMuted True, VSetVolume 1,
        VPlay]
   \<and> visible (overlay_run ''http://h'' overlay_init
       [OMount, OPlayVideo (JsonValue \<lparr>src = Some ''/v.mp4'', filename = None,
                                username = None, rewardName = None\<rparr>)])
   \<and> step_ops ''http://h'' (overlay_run ''http://h'' overlay_init
       [OMount, OPlayVideo (JsonValue \<lparr>src = Some ''/v.mp4'', filename = None,
                                username = None, rewardName = None\<rparr>)]) OEnded
     = [VPause, VRemoveSrc, VLoad]
   \<and> \<not> visible (overlay_run ''http://h'' overlay_init
       [OMount, OPlayVideo (JsonValue \<lparr>src = Some ''/v.mp4'', filename = None,
                                username = None, rewardName = None\<rparr>), OEnded])"
  using video_reset_before_play[where api = "''http://h''" and ins = "[OMount]"
      and i = "OPlayVideo (JsonValue \<lparr>src = Some ''/v.mp4'', filename = None,
                                username = None, rewardName = None\<rparr>)"]
    video_reset_before_play[where api = "''http://h''"
      and ins = "[OMount, OPlayVideo (JsonValue \<lparr>src = Some ''/v.mp4'', filename = None,
                                username = None, rewardName = None\<rparr>)]"
      and i = OEnded]
  by (simp add: overlay_defs Let_def)

end
